theory Spec2Isabelle
  imports Complex_Main
begin

section \<open>Arithmetic model\<close>

text \<open>
  The solvers compute in C \<^verbatim>\<open>double\<close> (\<^verbatim>\<open>#define real double\<close>). The embedding
  models a double by a real number: every operation is exact, and the IEEE special values
  (infinities, NaN, signed zero) have no counterpart. Where a theorem depends on a
  divisor being non-zero, either the model returns \<open>None\<close> at that division (the IEEE
  result would be infinite or NaN) or the theorem carries the hypothesis that keeps the
  divisor away from zero.

  A C array of \<^verbatim>\<open>NCONS\<close> doubles is a \<open>real list\<close>, read with \<open>!\<close>; a loop
  \<^verbatim>\<open>for (q = 0; q < NCONS; ++q)\<close> that fills an array is a \<open>map\<close> over \<open>[0..<NCONS]\<close>.
\<close>

subsection \<open>The macros shared by all four source files\<close>

definition min2 :: "real \<Rightarrow> real \<Rightarrow> real" where
  "min2 a b = (if a < b then a else b)"

definition max2 :: "real \<Rightarrow> real \<Rightarrow> real" where
  "max2 a b = (if a > b then a else b)"

definition min3 :: "real \<Rightarrow> real \<Rightarrow> real \<Rightarrow> real" where
  "min3 a b c = min2 a (min2 b c)"

definition max3 :: "real \<Rightarrow> real \<Rightarrow> real \<Rightarrow> real" where
  "max3 a b c = max2 a (max2 b c)"

text \<open>\<^verbatim>\<open>#define sign(x) copysign(1.0, x)\<close>: the sign of zero is \<open>+1\<close> (there is no
  negative zero among the reals).\<close>

definition sign :: "real \<Rightarrow> real" where
  "sign x = (if x < 0 then - 1 else 1)"

definition minabs :: "real \<Rightarrow> real \<Rightarrow> real \<Rightarrow> real" where
  "minabs a b c = min3 (abs a) (abs b) (abs c)"

text \<open>\<^verbatim>\<open>x * (direction == k)\<close>: a C comparison is the integer 1 or 0.\<close>

definition c_bool :: "bool \<Rightarrow> real" where
  "c_bool b = (if b then 1 else 0)"

subsection \<open>The PLM slope limiter\<close>

text \<open>\<^verbatim>\<open>plm_gradient_scalar\<close> has the same body in iso2d, euler2d and srhd_1d; only the
  macro \<^verbatim>\<open>PLM_THETA\<close> differs, so it is the first argument here.\<close>

definition plm_gradient_scalar :: "real \<Rightarrow> real \<Rightarrow> real \<Rightarrow> real \<Rightarrow> real" where
  "plm_gradient_scalar PLM_THETA yl y0 yr =
     (let a = (y0 - yl) * PLM_THETA;
          b = (yr - yl) * 0.5;
          c = (yr - y0) * PLM_THETA
      in 0.25 * \<bar>sign a + sign b\<bar> * (sign a + sign c) * minabs a b c)"

definition iso2d_PLM_THETA :: real where
  "iso2d_PLM_THETA = 1.5"

definition euler2d_PLM_THETA :: real where
  "euler2d_PLM_THETA = 1.5"

definition srhd_PLM_THETA :: real where
  "srhd_PLM_THETA = 2.0"

definition iso2d_plm_gradient_scalar :: "real \<Rightarrow> real \<Rightarrow> real \<Rightarrow> real" where
  "iso2d_plm_gradient_scalar = plm_gradient_scalar iso2d_PLM_THETA"

definition euler2d_plm_gradient_scalar :: "real \<Rightarrow> real \<Rightarrow> real \<Rightarrow> real" where
  "euler2d_plm_gradient_scalar = plm_gradient_scalar euler2d_PLM_THETA"

definition srhd_plm_gradient_scalar :: "real \<Rightarrow> real \<Rightarrow> real \<Rightarrow> real" where
  "srhd_plm_gradient_scalar = plm_gradient_scalar srhd_PLM_THETA"

section \<open>iso2d (src/src/iso2d/mod.c)\<close>

definition iso2d_NCONS :: nat where
  "iso2d_NCONS = 3"

definition iso2d_plm_gradient :: "real list \<Rightarrow> real list \<Rightarrow> real list \<Rightarrow> real list" where
  "iso2d_plm_gradient yl y0 yr =
     map (\<lambda>q. iso2d_plm_gradient_scalar (yl ! q) (y0 ! q) (yr ! q)) [0..<iso2d_NCONS]"


definition iso2d_primitive_to_conserved :: "real list \<Rightarrow> real list" where
  "iso2d_primitive_to_conserved prim =
     (let rho = prim ! 0;
          vx = prim ! 1;
          vy = prim ! 2;
          px = vx * rho;
          py = vy * rho
      in [rho, px, py])"

definition primitive_to_velocity :: "real list \<Rightarrow> int \<Rightarrow> real" where
  "primitive_to_velocity prim direction =
     (if direction = 0 then prim ! 1 else if direction = 1 then prim ! 2 else 0)"

definition iso2d_primitive_to_flux :: "real list \<Rightarrow> real list \<Rightarrow> real \<Rightarrow> int \<Rightarrow> real list" where
  "iso2d_primitive_to_flux prim cons cs2 direction =
     (let vn = primitive_to_velocity prim direction;
          rho = prim ! 0;
          pressure = rho * cs2
      in [vn * (cons ! 0),
          vn * (cons ! 1) + pressure * c_bool (direction = 0),
          vn * (cons ! 2) + pressure * c_bool (direction = 1)])"

definition primitive_to_outer_wavespeeds :: "real list \<Rightarrow> real \<Rightarrow> int \<Rightarrow> real list" where
  "primitive_to_outer_wavespeeds prim cs2 direction =
     (let cs = sqrt cs2;
          vn = primitive_to_velocity prim direction
      in [vn - cs, vn + cs])"

text \<open>The two signal speeds \<^verbatim>\<open>am\<close>, \<^verbatim>\<open>ap\<close> of \<^verbatim>\<open>riemann_hlle\<close> (the same lines in
  iso2d and euler2d: the outer wavespeeds of both states, then \<^verbatim>\<open>min3\<close> and
  \<^verbatim>\<open>max3\<close> with the literal \<^verbatim>\<open>0.0\<close>).\<close>

definition hlle_signal_speeds :: "real list \<Rightarrow> real list \<Rightarrow> real \<Rightarrow> int \<Rightarrow> real \<times> real" where
  "hlle_signal_speeds pl pr cs2 direction =
     (let al = primitive_to_outer_wavespeeds pl cs2 direction;
          ar = primitive_to_outer_wavespeeds pr cs2 direction;
          am = min3 0 (al ! 0) (ar ! 0);
          ap = max3 0 (al ! 1) (ar ! 1)
      in (am, ap))"

text \<open>The flux loop of \<^verbatim>\<open>riemann_hlle\<close> divides by \<^verbatim>\<open>ap - am\<close>; the model returns
  \<open>None\<close> when that divisor is zero.\<close>

definition hlle_flux ::
  "nat \<Rightarrow> real list \<Rightarrow> real list \<Rightarrow> real list \<Rightarrow> real list \<Rightarrow> real \<Rightarrow> real \<Rightarrow> real list option" where
  "hlle_flux ncons ul ur fl fr am ap =
     (if ap - am = 0 then None
      else Some (map (\<lambda>q. ((fl ! q) * ap - (fr ! q) * am - ((ul ! q) - (ur ! q)) * ap * am) / (ap - am))
                   [0..<ncons]))"

definition iso2d_riemann_hlle :: "real list \<Rightarrow> real list \<Rightarrow> real \<Rightarrow> int \<Rightarrow> real list option" where
  "iso2d_riemann_hlle pl pr cs2 direction =
     (let ul = iso2d_primitive_to_conserved pl;
          ur = iso2d_primitive_to_conserved pr;
          fl = iso2d_primitive_to_flux pl ul cs2 direction;
          fr = iso2d_primitive_to_flux pr ur cs2 direction;
          (am, ap) = hlle_signal_speeds pl pr cs2 direction
      in hlle_flux iso2d_NCONS ul ur fl fr am ap)"

subsection \<open>Point masses and the buffer zone of iso2d\<close>



record Keplerian =
  kb_surface_density :: real
  kb_surface_pressure :: real
  kb_central_mass :: real
  kb_driving_rate :: real
  kb_outer_radius :: real
  kb_onset_width :: real

datatype BufferZone = NoBuffer | KeplerianBuffer Keplerian



definition iso2d_buffer_source_term ::
  "BufferZone \<Rightarrow> real \<Rightarrow> real \<Rightarrow> real \<Rightarrow> real list \<Rightarrow> real list" where
  "iso2d_buffer_source_term buffer xc yc dt cons =
     (case buffer of
        NoBuffer \<Rightarrow> cons
      | KeplerianBuffer keplerian \<Rightarrow>
          (let rc = sqrt (xc * xc + yc * yc);
               surface_density = kb_surface_density keplerian;
               central_mass = kb_central_mass keplerian;
               driving_rate = kb_driving_rate keplerian;
               outer_radius = kb_outer_radius keplerian;
               onset_width = kb_onset_width keplerian;
               onset_radius = outer_radius - onset_width
           in if rc > onset_radius
              then (let pf = surface_density * sqrt (central_mass / rc);
                        px = pf * (- yc / rc);
                        py = pf * (xc / rc);
                        u0 = [surface_density, px, py];
                        omega_outer = sqrt (central_mass / onset_radius ^ 3);
                        buffer_rate = driving_rate * omega_outer * max2 rc 1
                    in map (\<lambda>q. cons ! q - (cons ! q - u0 ! q) * buffer_rate * dt)
                         [0..<iso2d_NCONS])
              else cons))"

section \<open>euler2d (src/src/euler2d/mod.c)\<close>

definition euler2d_NCONS :: nat where
  "euler2d_NCONS = 4"

definition GAMMA_LAW_INDEX :: real where
  "GAMMA_LAW_INDEX = 5 / 3"

definition euler2d_conserved_to_primitive ::
  "real list \<Rightarrow> real \<Rightarrow> real \<Rightarrow> real \<Rightarrow> real list" where
  "euler2d_conserved_to_primitive cons velocity_ceiling density_floor pressure_floor =
     (let gamma = GAMMA_LAW_INDEX;
          rho = max2 (cons ! 0) density_floor;
          px = cons ! 1;
          py = cons ! 2;
          vx = sign px * min2 \<bar>px / rho\<bar> velocity_ceiling;
          vy = sign py * min2 \<bar>py / rho\<bar> velocity_ceiling;
          pres = max2 ((cons ! 3 - 0.5 * rho * (vx * vx + vy * vy)) * (gamma - 1)) pressure_floor
      in [rho, vx, vy, pres])"

definition euler2d_primitive_to_conserved :: "real list \<Rightarrow> real list" where
  "euler2d_primitive_to_conserved prim =
     (let gamma = GAMMA_LAW_INDEX;
          rho = prim ! 0;
          vx = prim ! 1;
          vy = prim ! 2;
          pres = prim ! 3;
          px = vx * rho;
          py = vy * rho;
          en = pres / (gamma - 1) + 0.5 * rho * (vx * vx + vy * vy)
      in [rho, px, py, en])"

definition euler2d_primitive_to_flux :: "real list \<Rightarrow> real list \<Rightarrow> int \<Rightarrow> real list" where
  "euler2d_primitive_to_flux prim cons direction =
     (let vn = primitive_to_velocity prim direction;
          pressure = prim ! 3
      in [vn * (cons ! 0),
          vn * (cons ! 1) + pressure * c_bool (direction = 0),
          vn * (cons ! 2) + pressure * c_bool (direction = 1),
          vn * (cons ! 3 + pressure)])"

definition euler2d_riemann_hlle :: "real list \<Rightarrow> real list \<Rightarrow> real \<Rightarrow> int \<Rightarrow> real list option" where
  "euler2d_riemann_hlle pl pr cs2 direction =
     (let ul = euler2d_primitive_to_conserved pl;
          ur = euler2d_primitive_to_conserved pr;
          fl = euler2d_primitive_to_flux pl ul direction;
          fr = euler2d_primitive_to_flux pr ur direction;
          (am, ap) = hlle_signal_speeds pl pr cs2 direction
      in hlle_flux euler2d_NCONS ul ur fl fr am ap)"

text \<open>The last statements of \<^verbatim>\<open>advance_rk_zone\<close> and of \<^verbatim>\<open>advance_rk_zone_inviscid\<close>
  (the same text in both): the flux difference and the Runge-Kutta average, applied to the
  zone's conserved state \<^verbatim>\<open>ucc\<close> after the source terms, and the conversion that writes
  the zone \<^verbatim>\<open>pout\<close> of \<^verbatim>\<open>primitive_wr\<close>. The model returns what is written to \<^verbatim>\<open>pout\<close>.\<close>

definition advance_rk_zone_write ::
  "real list \<Rightarrow> real list \<Rightarrow> real list \<Rightarrow> real list \<Rightarrow> real list \<Rightarrow> real list
     \<Rightarrow> real \<Rightarrow> real \<Rightarrow> real \<Rightarrow> real \<Rightarrow> real \<Rightarrow> real \<Rightarrow> real \<Rightarrow> real list" where
  "advance_rk_zone_write ucc fli fri flj frj un dx dy a dt velocity_ceiling density_floor
       pressure_floor =
     (let ucc = map (\<lambda>q.
                  (let u = ucc ! q - ((fri ! q - fli ! q) / dx + (frj ! q - flj ! q) / dy) * dt
                   in (1 - a) * u + a * un ! q))
                [0..<euler2d_NCONS]
      in euler2d_conserved_to_primitive ucc velocity_ceiling density_floor pressure_floor)"

subsection \<open>Point masses and the buffer zone of euler2d\<close>



definition euler2d_buffer_source_term ::
  "BufferZone \<Rightarrow> real \<Rightarrow> real \<Rightarrow> real \<Rightarrow> real list \<Rightarrow> real list" where
  "euler2d_buffer_source_term buffer xc yc dt cons =
     (case buffer of
        NoBuffer \<Rightarrow> cons
      | KeplerianBuffer keplerian \<Rightarrow>
          (let rc = sqrt (xc * xc + yc * yc);
               surface_density = kb_surface_density keplerian;
               surface_pressure = kb_surface_pressure keplerian;
               central_mass = kb_central_mass keplerian;
               driving_rate = kb_driving_rate keplerian;
               outer_radius = kb_outer_radius keplerian;
               onset_width = kb_onset_width keplerian;
               onset_radius = outer_radius - onset_width
           in if rc > onset_radius
              then (let pf = surface_density * sqrt (central_mass / rc);
                        px = pf * (- yc / rc);
                        py = pf * (xc / rc);
                        kinetic_energy = 0.5 * (px * px + py * py) / surface_density;
                        energy = surface_pressure / (GAMMA_LAW_INDEX - 1) + kinetic_energy;
                        u0 = [surface_density, px, py, energy];
                        omega_outer = sqrt (central_mass / onset_radius ^ 3);
                        buffer_rate = driving_rate * omega_outer * max2 rc 1
                    in map (\<lambda>q. cons ! q - (cons ! q - u0 ! q) * buffer_rate * dt)
                         [0..<euler2d_NCONS])
              else cons))"

section \<open>srhd_1d (src/sailfish/solvers/srhd_1d.c)\<close>

definition srhd_NCONS :: nat where
  "srhd_NCONS = 4"

definition ADIABATIC_GAMMA :: real where
  "ADIABATIC_GAMMA = 4 / 3"

definition primitive_to_gamma_beta_squared :: "real list \<Rightarrow> real" where
  "primitive_to_gamma_beta_squared prim = (let u1 = prim ! 1 in u1 * u1)"

definition primitive_to_lorentz_factor :: "real list \<Rightarrow> real" where
  "primitive_to_lorentz_factor prim = sqrt (1 + primitive_to_gamma_beta_squared prim)"

definition primitive_to_beta_component :: "real list \<Rightarrow> real" where
  "primitive_to_beta_component prim =
     (let w = primitive_to_lorentz_factor prim in prim ! 1 / w)"

definition primitive_to_enthalpy_density :: "real list \<Rightarrow> real" where
  "primitive_to_enthalpy_density prim =
     (let rho = prim ! 0;
          pre = prim ! 2
      in rho + pre * (1 + 1 / (ADIABATIC_GAMMA - 1)))"

definition srhd_primitive_to_conserved :: "real list \<Rightarrow> real \<Rightarrow> real list" where
  "srhd_primitive_to_conserved prim dv =
     (let rho = prim ! 0;
          u1 = prim ! 1;
          pre = prim ! 2;
          w = primitive_to_lorentz_factor prim;
          h = primitive_to_enthalpy_density prim / rho;
          m = rho * w
      in [dv * m,
          dv * m * h * u1,
          dv * m * (h * w - 1) - dv * pre,
          dv * m * (prim ! 3)])"





text \<open>Modelled from the spec: the execution mode, one of CPU, OMP and GPU (section 6).
  \<^verbatim>\<open>EXEC_MODE\<close> and \<^verbatim>\<open>EXEC_GPU\<close> are macros of the build and are not defined in the
  source file; the three checks are compiled only under
  \<^verbatim>\<open>#if (EXEC_MODE != EXEC_GPU)\<close>.\<close>

datatype exec_mode = EXEC_CPU | EXEC_OMP | EXEC_GPU



definition srhd_primitive_to_flux :: "real list \<Rightarrow> real list \<Rightarrow> real list" where
  "srhd_primitive_to_flux prim cons =
     (let vn = primitive_to_beta_component prim;
          pre = prim ! 2;
          s = prim ! 3
      in [vn * cons ! 0,
          vn * cons ! 1 + pre,
          vn * cons ! 2 + pre * vn,
          vn * cons ! 0 * s])"

definition primitive_to_sound_speed_squared :: "real list \<Rightarrow> real" where
  "primitive_to_sound_speed_squared prim =
     (let pre = prim ! 2;
          rho_h = primitive_to_enthalpy_density prim
      in ADIABATIC_GAMMA * pre / rho_h)"

definition srhd_primitive_to_outer_wavespeeds :: "real list \<Rightarrow> real list" where
  "srhd_primitive_to_outer_wavespeeds prim =
     (let a2 = primitive_to_sound_speed_squared prim;
          uu = primitive_to_gamma_beta_squared prim;
          vn = primitive_to_beta_component prim;
          vv = uu / (1 + uu);
          v2 = vn * vn;
          k0 = sqrt (a2 * (1 - vv) * (1 - vv * a2 - v2 * (1 - a2)))
      in [(vn * (1 - a2) - k0) / (1 - vv * a2),
          (vn * (1 - a2) + k0) / (1 - vv * a2)])"

definition primitive_with_radial_boost :: "real list \<Rightarrow> real \<Rightarrow> real list" where
  "primitive_with_radial_boost prim beta =
     (let gw = 1 / sqrt (1 - beta * beta);
          u0 = primitive_to_lorentz_factor prim;
          u1 = prim ! 1
      in [prim ! 0, u1 * gw - u0 * gw * beta, prim ! 2, prim ! 3])"

subsection \<open>The HLLC solver\<close>

text \<open>\<^verbatim>\<open>riemann_hllc\<close> is split at the places the claims name: the signal speeds
  \<^verbatim>\<open>am\<close>, \<^verbatim>\<open>ap\<close>; the HLL averages \<^verbatim>\<open>u_hll\<close>, \<^verbatim>\<open>f_hll\<close>; the contact speed
  \<^verbatim>\<open>v_star\<close>; and the star-state flux, whose text is the same in the left and the
  right branch of the source but for \<^verbatim>\<open>(ul, am, vl)\<close> against \<^verbatim>\<open>(ur, ap, vr)\<close>.\<close>

definition srhd_signal_speeds :: "real list \<Rightarrow> real list \<Rightarrow> real \<times> real" where
  "srhd_signal_speeds pl pr =
     (let al = srhd_primitive_to_outer_wavespeeds pl;
          ar = srhd_primitive_to_outer_wavespeeds pr;
          am = min2 (al ! 0) (ar ! 0);
          ap = max2 (al ! 1) (ar ! 1)
      in (am, ap))"

definition u_hll :: "real list \<Rightarrow> real list \<Rightarrow> real list \<Rightarrow> real list \<Rightarrow> real \<Rightarrow> real \<Rightarrow> real list" where
  "u_hll ul ur fl fr am ap =
     map (\<lambda>q. (ur ! q * ap - ul ! q * am + (fl ! q - fr ! q)) / (ap - am)) [0..<srhd_NCONS]"

definition f_hll :: "real list \<Rightarrow> real list \<Rightarrow> real list \<Rightarrow> real list \<Rightarrow> real \<Rightarrow> real \<Rightarrow> real list" where
  "f_hll ul ur fl fr am ap =
     map (\<lambda>q. (fl ! q * ap - fr ! q * am - (ul ! q - ur ! q) * ap * am) / (ap - am)) [0..<srhd_NCONS]"

definition hllc_v_star :: "real \<Rightarrow> real \<Rightarrow> real \<Rightarrow> real" where
  "hllc_v_star a b c =
     (if \<bar>a\<bar> < 1 / 10 ^ 10 then - c / b
      else (- b - sqrt (b * b - 4 * a * c)) / (2 * a))"

definition hllc_star_flux ::
  "real list \<Rightarrow> real \<Rightarrow> real \<Rightarrow> real \<Rightarrow> real \<Rightarrow> real \<Rightarrow> real list" where
  "hllc_star_flux u a_side v_side v_star p_star v_face =
     (let D_star = u ! 0 * (a_side - v_side) / (a_side - v_star);
          E_star = (a_side * (u ! 2 + u ! 0) - u ! 1 + p_star * v_star) / (a_side - v_star);
          Sr_star = (E_star + p_star) * v_star;
          tau_star = E_star - D_star;
          s_star = u ! 3 * (a_side - v_side) / (a_side - v_star)
      in [D_star * v_star - v_face * D_star,
          Sr_star * v_star + p_star - v_face * Sr_star,
          Sr_star - D_star * v_star - v_face * tau_star,
          s_star * v_star - v_face * s_star])"

definition riemann_hllc :: "real list \<Rightarrow> real list \<Rightarrow> real \<Rightarrow> real list" where
  "riemann_hllc pl pr v_face =
     (let ul = srhd_primitive_to_conserved pl 1;
          ur = srhd_primitive_to_conserved pr 1;
          fl = srhd_primitive_to_flux pl ul;
          fr = srhd_primitive_to_flux pr ur;
          (am, ap) = srhd_signal_speeds pl pr
      in if v_face < am then map (\<lambda>q. fl ! q - v_face * ul ! q) [0..<srhd_NCONS]
         else if v_face > ap then map (\<lambda>q. fr ! q - v_face * ur ! q) [0..<srhd_NCONS]
         else
           (let uh = u_hll ul ur fl fr am ap;
                fh = f_hll ul ur fl fr am ap;
                a = fh ! 2 + fh ! 0;
                b = - (uh ! 2 + uh ! 0 + fh ! 1);
                c = uh ! 1;
                v_star = hllc_v_star a b c;
                p_star = - a * v_star + fh ! 1
            in if v_face < v_star
               then (let vl = primitive_to_beta_component pl
                     in hllc_star_flux ul am vl v_star p_star v_face)
               else (let vr = primitive_to_beta_component pr
                     in hllc_star_flux ur ap vr v_star p_star v_face)))"

subsection \<open>Wavespeeds for the time step\<close>

text \<open>The body of the zone loop of \<^verbatim>\<open>srhd_1d_max_wavespeeds\<close>. The pointer
  \<^verbatim>\<open>&primitive[(i + ng) * NCONS]\<close> into the flat array is the list with that many
  entries dropped. The array \<^verbatim>\<open>ai\<close> is written twice, first from the boosted and then
  from the zone's own primitive state.\<close>

definition max_wavespeeds_zone :: "real list \<Rightarrow> real list \<Rightarrow> real \<Rightarrow> nat \<Rightarrow> real" where
  "max_wavespeeds_zone face_positions primitive adot i =
     (let ng = 2;
          p = drop ((i + ng) * srhd_NCONS) primitive;
          x0 = face_positions ! i;
          x1 = face_positions ! (i + 1);
          p_boosted = primitive_with_radial_boost p (0.5 * (x0 + x1) * adot);
          ai = srhd_primitive_to_outer_wavespeeds p_boosted;
          ai = srhd_primitive_to_outer_wavespeeds p
      in max2 \<bar>ai ! 0\<bar> \<bar>ai ! 1\<bar>)"

text \<open>Modelled from the spec: \<^verbatim>\<open>FOR_EACH_1D(num_zones)\<close>, a macro of the build that
  is not defined in the source file. The kernel is applied once to every zone of the patch
  (section 5), so the body runs for every \<open>i\<close> from 0 below \<^verbatim>\<open>num_zones\<close>; zone \<open>i\<close>
  writes \<^verbatim>\<open>wavespeed[i]\<close> only.\<close>

definition srhd_1d_max_wavespeeds :: "nat \<Rightarrow> real list \<Rightarrow> real list \<Rightarrow> real \<Rightarrow> real list" where
  "srhd_1d_max_wavespeeds num_zones face_positions primitive adot =
     map (max_wavespeeds_zone face_positions primitive adot) [0..<num_zones]"

section \<open>cbdisodg_2d (src/sailfish/solvers/cbdisodg_2d.c)\<close>

definition cbdisodg_NCONS :: nat where
  "cbdisodg_NCONS = 3"



record KeplerianBuffer_dg =
  dg_surface_density :: real
  dg_surface_pressure :: real
  dg_central_mass :: real
  dg_driving_rate :: real
  dg_outer_radius :: real
  dg_onset_width :: real
  dg_is_enabled :: int



text \<open>\<^verbatim>\<open>buffer_source_term(buffer, xc, yc, cons, cons_dot)\<close> subtracts from the
  rate of change \<^verbatim>\<open>cons_dot\<close>; there is no time step in it. \<^verbatim>\<open>pow(x, -3.0)\<close> is
  \<open>1 / x\<^sup>3\<close>.\<close>

definition cbdisodg_buffer_source_term ::
  "KeplerianBuffer_dg \<Rightarrow> real \<Rightarrow> real \<Rightarrow> real list \<Rightarrow> real list \<Rightarrow> real list" where
  "cbdisodg_buffer_source_term buffer xc yc cons cons_dot =
     (if dg_is_enabled buffer \<noteq> 0
      then (let rc = sqrt (xc * xc + yc * yc);
                surface_density = dg_surface_density buffer;
                central_mass = dg_central_mass buffer;
                driving_rate = dg_driving_rate buffer;
                outer_radius = dg_outer_radius buffer;
                onset_width = dg_onset_width buffer;
                onset_radius = outer_radius - onset_width
            in if rc > onset_radius
               then (let pf = surface_density * sqrt (central_mass / rc);
                         px = pf * (- yc / rc);
                         py = pf * (xc / rc);
                         u0 = [surface_density, px, py];
                         omega_outer = sqrt (central_mass * (1 / onset_radius ^ 3));
                         buffer_rate = driving_rate * omega_outer * (rc - onset_radius)
                                         / (outer_radius - onset_radius)
                     in map (\<lambda>q. cons_dot ! q - (cons ! q - u0 ! q) * buffer_rate)
                          [0..<cbdisodg_NCONS])
               else cons_dot)
      else cons_dot)"

subsection \<open>The write-back of the modal weights\<close>




section \<open>Formulas of the specification\<close>

text \<open>The limiter as the specification words it (section 4.1): with \<open>a = \<theta>(y0 - yl)\<close>,
  \<open>b = (yr - yl)/2\<close>, \<open>c = \<theta>(yr - y0)\<close> it returns
  \<open>0.25 |sign a + sign b| (sign a + sign c) min(|a|, |b|, |c|)\<close>.\<close>

definition spec_plm_limiter :: "real \<Rightarrow> real \<Rightarrow> real \<Rightarrow> real \<Rightarrow> real" where
  "spec_plm_limiter theta yl y0 yr =
     (let a = theta * (y0 - yl);
          b = (yr - yl) / 2;
          c = theta * (yr - y0)
      in 0.25 * \<bar>sign a + sign b\<bar> * (sign a + sign c) * min \<bar>a\<bar> (min \<bar>b\<bar> \<bar>c\<bar>))"

text \<open>The three candidate slopes share a consistent sign pattern when they are all
  strictly positive or all strictly negative.\<close>

definition consistent_sign :: "real \<Rightarrow> real \<Rightarrow> real \<Rightarrow> bool" where
  "consistent_sign a b c = ((0 < a \<and> 0 < b \<and> 0 < c) \<or> (a < 0 \<and> b < 0 \<and> c < 0))"





text \<open>The buffer rate as the specification words it (section 4.5):
  \<open>driving_rate \<cdot> \<omega>\<^sub>o\<^sub>u\<^sub>t\<^sub>e\<^sub>r \<cdot> ramp(r)\<close> with \<open>\<omega>\<^sub>o\<^sub>u\<^sub>t\<^sub>e\<^sub>r = \<surd>(M\<^sub>c / r\<^sub>o\<^sub>n\<^sub>s\<^sub>e\<^sub>t\<^sup>3)\<close> and the linear ramp
  \<open>(r - r\<^sub>o\<^sub>n\<^sub>s\<^sub>e\<^sub>t)/(r\<^sub>o\<^sub>u\<^sub>t\<^sub>e\<^sub>r - r\<^sub>o\<^sub>n\<^sub>s\<^sub>e\<^sub>t)\<close>.\<close>

definition spec_buffer_rate :: "real \<Rightarrow> real \<Rightarrow> real \<Rightarrow> real \<Rightarrow> real \<Rightarrow> real" where
  "spec_buffer_rate driving_rate central_mass outer_radius onset_width r =
     (let onset_radius = outer_radius - onset_width;
          omega_outer = sqrt (central_mass / onset_radius ^ 3);
          ramp = (r - onset_radius) / (outer_radius - onset_radius)
      in driving_rate * omega_outer * ramp)"

text \<open>The rate the two finite-volume solvers use instead: the same \<open>\<omega>\<^sub>o\<^sub>u\<^sub>t\<^sub>e\<^sub>r\<close>, with
  \<open>max(r, 1)\<close> in the place of the ramp.\<close>

definition legacy_buffer_rate :: "real \<Rightarrow> real \<Rightarrow> real \<Rightarrow> real \<Rightarrow> real \<Rightarrow> real" where
  "legacy_buffer_rate driving_rate central_mass outer_radius onset_width r =
     (let onset_radius = outer_radius - onset_width;
          omega_outer = sqrt (central_mass / onset_radius ^ 3)
      in driving_rate * omega_outer * max r 1)"

text \<open>The momentum of the circular-Keplerian reference state at \<open>(x, y)\<close>:
  \<open>p\<^sub>f (-y/r, x/r)\<close> with \<open>p\<^sub>f = \<Sigma>\<^sub>b \<surd>(M\<^sub>c / r)\<close>.\<close>

definition keplerian_momentum :: "real \<Rightarrow> real \<Rightarrow> real \<Rightarrow> real \<Rightarrow> real \<times> real" where
  "keplerian_momentum surface_density central_mass x y =
     (let r = sqrt (x * x + y * y);
          pf = surface_density * sqrt (central_mass / r)
      in (pf * (- y / r), pf * (x / r)))"

text \<open>The relaxation \<open>U - (U - U\<^sub>0) k\<close>, component by component.\<close>

definition relax :: "real list \<Rightarrow> real list \<Rightarrow> real \<Rightarrow> real list" where
  "relax u u0 k = map (\<lambda>q. u ! q - (u ! q - u0 ! q) * k) [0..<length u0]"

text \<open>The floors and the ceiling on a primitive state of euler2d, the ceiling taken on
  each velocity component.\<close>

definition within_floors :: "real list \<Rightarrow> real \<Rightarrow> real \<Rightarrow> real \<Rightarrow> bool" where
  "within_floors prim velocity_ceiling density_floor pressure_floor =
     (density_floor \<le> prim ! 0 \<and> pressure_floor \<le> prim ! 3
      \<and> \<bar>prim ! 1\<bar> \<le> velocity_ceiling \<and> \<bar>prim ! 2\<bar> \<le> velocity_ceiling)"

section \<open>Properties\<close>

subsection \<open>Macros\<close>

lemma min2_eq_min: "min2 a b = min a b"
  by (simp add: min2_def min_def)

lemma max2_eq_max: "max2 a b = max a b"
  by (simp add: max2_def max_def)

lemma min3_eq_min: "min3 a b c = min a (min b c)"
  by (simp add: min3_def min2_eq_min)

lemma max3_eq_max: "max3 a b c = max a (max b c)"
  by (simp add: max3_def max2_eq_max)

lemma sign_cases: "sign x = 1 \<or> sign x = - 1"
  by (simp add: sign_def)


lemma abs_sign: "\<bar>sign x\<bar> = 1"
  by (simp add: sign_def)

lemma upt_3: "[0..<3] = [0, 1, 2]"
  by (simp add: upt_rec)

lemma upt_4: "[0..<4] = [0, 1, 2, 3]"
  by (simp add: upt_rec)

subsection \<open>The slope limiter\<close>

lemma plm_gradient_scalar_spec:
  "plm_gradient_scalar th yl y0 yr = spec_plm_limiter th yl y0 yr"
  by (simp add: plm_gradient_scalar_def spec_plm_limiter_def Let_def minabs_def min3_eq_min
      mult.commute)

lemma spec_plm_limiter_const: "spec_plm_limiter th y y y = 0"
  by (simp add: spec_plm_limiter_def)

lemma spec_plm_limiter_mixed:
  assumes "\<not> consistent_sign (th * (y0 - yl)) ((yr - yl) / 2) (th * (yr - y0))"
  shows "spec_plm_limiter th yl y0 yr = 0"
proof -
  define a where "a = th * (y0 - yl)"
  define b where "b = (yr - yl) / 2"
  define c where "c = th * (yr - y0)"
  have eq: "spec_plm_limiter th yl y0 yr =
      0.25 * \<bar>sign a + sign b\<bar> * (sign a + sign c) * min \<bar>a\<bar> (min \<bar>b\<bar> \<bar>c\<bar>)"
    by (simp add: spec_plm_limiter_def Let_def a_def b_def c_def)
  from assms have h: "\<not> (0 < a \<and> 0 < b \<and> 0 < c)" "\<not> (a < 0 \<and> b < 0 \<and> c < 0)"
    by (simp_all add: a_def b_def c_def consistent_sign_def)
  consider "a = 0 \<or> b = 0 \<or> c = 0" | "a \<noteq> 0" "b \<noteq> 0" "c \<noteq> 0"
    by blast
  then show ?thesis
  proof cases
    case 1
    then have "min \<bar>a\<bar> (min \<bar>b\<bar> \<bar>c\<bar>) = 0"
      by (auto simp: min_def)
    then show ?thesis
      by (simp add: eq)
  next
    case 2
    with h have "sign a + sign b = 0 \<or> sign a + sign c = 0"
      by (auto simp: sign_def)
    then show ?thesis
      by (auto simp: eq)
  qed
qed

text \<open>Where the three candidates agree in sign the limiter is the minmod of the three:
  the smallest when all are positive, the largest (least steep) when all are negative.\<close>

lemma spec_plm_limiter_minmod:
  assumes "consistent_sign (th * (y0 - yl)) ((yr - yl) / 2) (th * (yr - y0))"
  shows "spec_plm_limiter th yl y0 yr =
     (if 0 < th * (y0 - yl)
      then min (th * (y0 - yl)) (min ((yr - yl) / 2) (th * (yr - y0)))
      else max (th * (y0 - yl)) (max ((yr - yl) / 2) (th * (yr - y0))))"
proof -
  define a where "a = th * (y0 - yl)"
  define b where "b = (yr - yl) / 2"
  define c where "c = th * (yr - y0)"
  have eq: "spec_plm_limiter th yl y0 yr =
      0.25 * \<bar>sign a + sign b\<bar> * (sign a + sign c) * min \<bar>a\<bar> (min \<bar>b\<bar> \<bar>c\<bar>)"
    by (simp add: spec_plm_limiter_def Let_def a_def b_def c_def)
  from assms consider "0 < a" "0 < b" "0 < c" | "a < 0" "b < 0" "c < 0"
    by (auto simp: a_def b_def c_def consistent_sign_def)
  then have "spec_plm_limiter th yl y0 yr =
      (if 0 < a then min a (min b c) else max a (max b c))"
  proof cases
    case 1
    then show ?thesis
      unfolding eq by (simp add: sign_def)
  next
    case 2
    then have "min \<bar>a\<bar> (min \<bar>b\<bar> \<bar>c\<bar>) = - max a (max b c)"
      by (simp add: min_def max_def)
    with 2 show ?thesis
      unfolding eq by (simp add: sign_def)
  qed
  then show ?thesis
    by (simp add: a_def b_def c_def)
qed

text \<open>
  Claim C9. For all inputs \<open>(yl, y0, yr)\<close> the limiter of iso2d, euler2d (\<open>\<theta> = 1.5\<close>) and
  srhd_1d (\<open>\<theta> = 2\<close>) returns \<open>0.25 |sign a + sign b| (sign a + sign c) min(|a|,|b|,|c|)\<close>
  with \<open>a = \<theta>(y0 - yl)\<close>, \<open>b = (yr - yl)/2\<close>, \<open>c = \<theta>(yr - y0)\<close>; it is \<open>0\<close> on a constant
  triple, and \<open>0\<close> whenever \<open>a\<close>, \<open>b\<close>, \<open>c\<close> are not all strictly positive or all strictly
  negative.
\<close>

theorem plm_gradient_scalar_limiter:
  "iso2d_plm_gradient_scalar yl y0 yr = spec_plm_limiter 1.5 yl y0 yr
   \<and> euler2d_plm_gradient_scalar yl y0 yr = spec_plm_limiter 1.5 yl y0 yr
   \<and> srhd_plm_gradient_scalar yl y0 yr = spec_plm_limiter 2 yl y0 yr
   \<and> iso2d_plm_gradient_scalar y y y = 0
   \<and> euler2d_plm_gradient_scalar y y y = 0
   \<and> srhd_plm_gradient_scalar y y y = 0
   \<and> (\<not> consistent_sign (1.5 * (y0 - yl)) ((yr - yl) / 2) (1.5 * (yr - y0)) \<longrightarrow>
        iso2d_plm_gradient_scalar yl y0 yr = 0 \<and> euler2d_plm_gradient_scalar yl y0 yr = 0)
   \<and> (\<not> consistent_sign (2 * (y0 - yl)) ((yr - yl) / 2) (2 * (yr - y0)) \<longrightarrow>
        srhd_plm_gradient_scalar yl y0 yr = 0)"
proof -
  have i: "iso2d_plm_gradient_scalar = spec_plm_limiter 1.5"
    by (rule ext)+ (simp add: iso2d_plm_gradient_scalar_def iso2d_PLM_THETA_def
        plm_gradient_scalar_spec)
  have e: "euler2d_plm_gradient_scalar = spec_plm_limiter 1.5"
    by (rule ext)+ (simp add: euler2d_plm_gradient_scalar_def euler2d_PLM_THETA_def
        plm_gradient_scalar_spec)
  have s: "srhd_plm_gradient_scalar = spec_plm_limiter 2"
    by (rule ext)+ (simp add: srhd_plm_gradient_scalar_def srhd_PLM_THETA_def
        plm_gradient_scalar_spec)
  show ?thesis
    unfolding i e s
    using spec_plm_limiter_mixed[where th = "1.5" and yl = yl and ?y0.0 = y0 and yr = yr]
      spec_plm_limiter_mixed[where th = 2 and yl = yl and ?y0.0 = y0 and yr = yr]
    by (simp only: spec_plm_limiter_const simp_thms) blast
qed

theorem plm_gradient_scalar_limiter_witness:
  "iso2d_plm_gradient_scalar 0 1 2 = 1
   \<and> srhd_plm_gradient_scalar 0 1 2 = 1
   \<and> \<not> consistent_sign (1.5 * (1 - 0)) ((0 - 0) / 2) (1.5 * (0 - 1))
   \<and> iso2d_plm_gradient_scalar 0 1 0 = 0
   \<and> euler2d_plm_gradient_scalar 0 1 0 = 0
   \<and> \<not> consistent_sign (2 * (1 - 0)) ((0 - 0) / 2) (2 * (0 - 1))
   \<and> srhd_plm_gradient_scalar 0 1 0 = 0"
  using plm_gradient_scalar_limiter[of 0 1 2 0] plm_gradient_scalar_limiter[of 0 1 0 0]
  by (simp add: consistent_sign_def spec_plm_limiter_def sign_def)

subsection \<open>HLLE signal speeds (iso2d, euler2d)\<close>

lemma hlle_signal_speeds_bracket:
  "fst (hlle_signal_speeds pl pr cs2 d) \<le> 0 \<and> 0 \<le> snd (hlle_signal_speeds pl pr cs2 d)"
  by (simp add: hlle_signal_speeds_def Let_def min3_eq_min max3_eq_max)

lemma hlle_signal_speeds_gap:
  assumes "0 < cs2"
  shows "0 < snd (hlle_signal_speeds pl pr cs2 d) - fst (hlle_signal_speeds pl pr cs2 d)"
proof -
  define vn where "vn = primitive_to_velocity pl d"
  define cs where "cs = sqrt cs2"
  have cs: "0 < cs" using assms by (simp add: cs_def)
  have lo: "fst (hlle_signal_speeds pl pr cs2 d) \<le> min 0 (vn - cs)"
    by (simp add: hlle_signal_speeds_def primitive_to_outer_wavespeeds_def Let_def
        min3_eq_min vn_def cs_def)
  have hi: "max 0 (vn + cs) \<le> snd (hlle_signal_speeds pl pr cs2 d)"
    by (simp add: hlle_signal_speeds_def primitive_to_outer_wavespeeds_def Let_def
        max3_eq_max vn_def cs_def)
  have "min 0 (vn - cs) < max 0 (vn + cs)" using cs by (simp add: min_def max_def)
  with lo hi show ?thesis by linarith
qed

lemma hlle_flux_defined:
  assumes "am < ap"
  shows "\<exists>flux. hlle_flux n ul ur fl fr am ap = Some flux \<and> length flux = n"
  using assms by (simp add: hlle_flux_def)

lemma iso2d_riemann_hlle_defined:
  assumes "0 < cs2"
  shows "\<exists>flux. iso2d_riemann_hlle pl pr cs2 d = Some flux \<and> length flux = iso2d_NCONS"
proof -
  obtain am ap where s: "hlle_signal_speeds pl pr cs2 d = (am, ap)" by (cases "hlle_signal_speeds pl pr cs2 d")
  from hlle_signal_speeds_gap[OF assms, of pl pr d] s have "am < ap" by simp
  then show ?thesis
    by (simp add: iso2d_riemann_hlle_def Let_def s hlle_flux_def)
qed

lemma euler2d_riemann_hlle_defined:
  assumes "0 < cs2"
  shows "\<exists>flux. euler2d_riemann_hlle pl pr cs2 d = Some flux \<and> length flux = euler2d_NCONS"
proof -
  obtain am ap where s: "hlle_signal_speeds pl pr cs2 d = (am, ap)" by (cases "hlle_signal_speeds pl pr cs2 d")
  from hlle_signal_speeds_gap[OF assms, of pl pr d] s have "am < ap" by simp
  then show ?thesis
    by (simp add: euler2d_riemann_hlle_def Let_def s hlle_flux_def)
qed


text \<open>
  Claim C10. In \<^verbatim>\<open>riemann_hlle\<close> of iso2d and euler2d the signal speeds satisfy
  \<open>am \<le> 0 \<le> ap\<close>, and when the sound speed squared passed in is strictly positive,
  \<open>ap - am > 0\<close>: the flux loop never divides by zero, so both solvers return a flux
  of \<^verbatim>\<open>NCONS\<close> entries.
\<close>

theorem riemann_hlle_signal_speeds:
  "fst (hlle_signal_speeds pl pr cs2 d) \<le> 0
   \<and> 0 \<le> snd (hlle_signal_speeds pl pr cs2 d)
   \<and> (0 < cs2 \<longrightarrow>
        0 < snd (hlle_signal_speeds pl pr cs2 d) - fst (hlle_signal_speeds pl pr cs2 d)
        \<and> (\<exists>flux. iso2d_riemann_hlle pl pr cs2 d = Some flux \<and> length flux = iso2d_NCONS)
        \<and> (\<exists>flux. euler2d_riemann_hlle pl pr cs2 d = Some flux \<and> length flux = euler2d_NCONS))"
  using hlle_signal_speeds_bracket[of pl pr cs2 d] hlle_signal_speeds_gap[of cs2 pl pr d]
    iso2d_riemann_hlle_defined[of cs2 pl pr d] euler2d_riemann_hlle_defined[of cs2 pl pr d]
  by blast

theorem riemann_hlle_signal_speeds_witness:
  "(0::real) < 4
   \<and> hlle_signal_speeds [1, 3, 0] [1, 1, 0] 4 0 = (- 1, 5)
   \<and> 0 < snd (hlle_signal_speeds [1, 3, 0] [1, 1, 0] 4 0) - fst (hlle_signal_speeds [1, 3, 0] [1, 1, 0] 4 0)
   \<and> (\<exists>flux. iso2d_riemann_hlle [1, 3, 0] [1, 1, 0] 4 0 = Some flux \<and> length flux = iso2d_NCONS)"
proof -
  have s4: "sqrt 4 = 2"
    using real_sqrt_abs[of 2] by simp
  have v: "hlle_signal_speeds [1, 3, 0] [1, 1, 0] 4 0 = (- 1, 5)"
    by (simp add: hlle_signal_speeds_def primitive_to_outer_wavespeeds_def
        primitive_to_velocity_def Let_def min3_def max3_def min2_def max2_def s4)
  show ?thesis
    using riemann_hlle_signal_speeds[of "[1, 3, 0]" "[1, 1, 0]" 4 0] v by simp
qed

subsection \<open>Floors of the euler2d inversion\<close>

lemma clamp_component:
  assumes "0 \<le> vc"
  shows "abs (sign p * min2 (abs (p / rho)) vc) \<le> vc"
  using assms by (simp add: abs_mult abs_sign min2_eq_min)

lemma euler2d_c2p_floors:
  assumes "0 \<le> vc"
  shows "df \<le> euler2d_conserved_to_primitive cons vc df pf ! 0
       \<and> pf \<le> euler2d_conserved_to_primitive cons vc df pf ! 3
       \<and> \<bar>euler2d_conserved_to_primitive cons vc df pf ! 1\<bar> \<le> vc
       \<and> \<bar>euler2d_conserved_to_primitive cons vc df pf ! 2\<bar> \<le> vc"
  using clamp_component[OF assms]
  by (simp add: euler2d_conserved_to_primitive_def Let_def max2_eq_max)


text \<open>
  Claim C4, as amended. For every conserved input, and every
  \<^verbatim>\<open>velocity_ceiling\<close> \<open>\<ge> 0\<close>, euler2d \<^verbatim>\<open>conserved_to_primitive\<close> returns a state with
  \<open>\<Sigma> \<ge>\<close> \<^verbatim>\<open>density_floor\<close>, \<open>p \<ge>\<close> \<^verbatim>\<open>pressure_floor\<close>, and each velocity component
  bounded by the ceiling: \<open>|vx| \<le>\<close> \<^verbatim>\<open>velocity_ceiling\<close> and \<open>|vy| \<le>\<close> \<^verbatim>\<open>velocity_ceiling\<close>
  (the two components are clamped one by one; the magnitude \<open>|v|\<close> is not). With a positive
  density floor the divisor \<^verbatim>\<open>rho\<close> of the momenta is positive. Both zone kernels of
  \<^verbatim>\<open>euler2d_advance_rk\<close> end by writing the zone through this conversion, whatever the
  fluxes and sources were, so every zone they write satisfies the same bounds.
\<close>

theorem euler2d_conserved_to_primitive_floors:
  assumes "0 \<le> velocity_ceiling"
  shows "within_floors
           (euler2d_conserved_to_primitive cons velocity_ceiling density_floor pressure_floor)
           velocity_ceiling density_floor pressure_floor
       \<and> within_floors
           (advance_rk_zone_write ucc fli fri flj frj un dx dy a dt velocity_ceiling density_floor
              pressure_floor)
           velocity_ceiling density_floor pressure_floor
       \<and> (0 < density_floor \<longrightarrow>
            0 < euler2d_conserved_to_primitive cons velocity_ceiling density_floor pressure_floor ! 0)"
proof -
  have "0 < density_floor \<longrightarrow>
        0 < euler2d_conserved_to_primitive cons velocity_ceiling density_floor pressure_floor ! 0"
    by (auto simp: euler2d_conserved_to_primitive_def Let_def max2_eq_max)
  with euler2d_c2p_floors[OF assms] show ?thesis
    unfolding within_floors_def advance_rk_zone_write_def Let_def by blast
qed

theorem euler2d_conserved_to_primitive_floors_witness:
  "(0::real) \<le> 1 \<and> (0::real) < 1 / 10
   \<and> euler2d_conserved_to_primitive [1, 10, - 10, 200] 1 (1 / 10) (1 / 10) = [1, 1, - 1, 398 / 3]
   \<and> within_floors (euler2d_conserved_to_primitive [1, 10, - 10, 200] 1 (1 / 10) (1 / 10))
        1 (1 / 10) (1 / 10)
   \<and> advance_rk_zone_write [1, 0, 0, 200] [0, 0, 0, 0] [0, - 10, 0, 0] [0, 0, 0, 0] [0, 0, 10, 0]
        [1, 0, 0, 0] 1 1 0 1 1 (1 / 10) (1 / 10) = [1, 1, - 1, 398 / 3]
   \<and> within_floors
        (advance_rk_zone_write [1, 0, 0, 200] [0, 0, 0, 0] [0, - 10, 0, 0] [0, 0, 0, 0] [0, 0, 10, 0]
           [1, 0, 0, 0] 1 1 0 1 1 (1 / 10) (1 / 10))
        1 (1 / 10) (1 / 10)"
proof -
  have v: "euler2d_conserved_to_primitive [1, 10, - 10, 200] 1 (1 / 10) (1 / 10) = [1, 1, - 1, 398 / 3]"
    by (simp add: euler2d_conserved_to_primitive_def Let_def max2_def min2_def sign_def
        GAMMA_LAW_INDEX_def)
  have w: "advance_rk_zone_write [1, 0, 0, 200] [0, 0, 0, 0] [0, - 10, 0, 0] [0, 0, 0, 0] [0, 0, 10, 0]
        [1, 0, 0, 0] 1 1 0 1 1 (1 / 10) (1 / 10) = [1, 1, - 1, 398 / 3]"
    by (simp add: advance_rk_zone_write_def euler2d_NCONS_def upt_4 Let_def v)
  show ?thesis
    using euler2d_conserved_to_primitive_floors[of 1 "[1, 10, - 10, 200]" "1 / 10" "1 / 10"
        "[1, 0, 0, 200]" "[0, 0, 0, 0]" "[0, - 10, 0, 0]" "[0, 0, 0, 0]" "[0, 0, 10, 0]"
        "[1, 0, 0, 0]" 1 1 0 1] v w
    by simp
qed

text \<open>The claim as stated bounds the velocity magnitude. With momenta \<open>(10, 10)\<close> on unit
  density and ceiling 1 both components are clamped to 1, and \<open>|v| = \<surd>2 > 1\<close>.\<close>

theorem euler2d_velocity_magnitude_counterexample:
  "euler2d_conserved_to_primitive [1, 10, 10, 200] 1 (1 / 10) (1 / 10) = [1, 1, 1, 398 / 3]
   \<and> \<not> sqrt ((euler2d_conserved_to_primitive [1, 10, 10, 200] 1 (1 / 10) (1 / 10) ! 1)\<^sup>2
           + (euler2d_conserved_to_primitive [1, 10, 10, 200] 1 (1 / 10) (1 / 10) ! 2)\<^sup>2) \<le> 1"
proof -
  have v: "euler2d_conserved_to_primitive [1, 10, 10, 200] 1 (1 / 10) (1 / 10) = [1, 1, 1, 398 / 3]"
    by (simp add: euler2d_conserved_to_primitive_def Let_def max2_def min2_def sign_def
        GAMMA_LAW_INDEX_def)
  show ?thesis
    unfolding v by simp
qed

subsection \<open>Primitive to conserved and back\<close>















subsection \<open>Wavespeeds of srhd_1d\<close>

lemma max_wavespeeds_zone_unboosted:
  "max_wavespeeds_zone faces prim adot i =
     max \<bar>srhd_primitive_to_outer_wavespeeds (drop ((i + 2) * srhd_NCONS) prim) ! 0\<bar>
         \<bar>srhd_primitive_to_outer_wavespeeds (drop ((i + 2) * srhd_NCONS) prim) ! 1\<bar>"
  by (simp add: max_wavespeeds_zone_def Let_def max2_eq_max)


text \<open>
  Claim C8. For every zone \<open>i\<close>, \<^verbatim>\<open>srhd_1d_max_wavespeeds\<close> stores
  \<open>max(|\<lambda>\<^sub>-|, |\<lambda>\<^sub>+|)\<close> of the zone's own primitive state (the four entries at
  \<open>(i + 2) * NCONS\<close> of the flat array): the wavespeeds of the boosted state are
  overwritten before they are read, so the stored values are the same for every
  \<^verbatim>\<open>adot\<close>.
\<close>

theorem srhd_1d_max_wavespeeds_unboosted:
  "srhd_1d_max_wavespeeds n faces prim adot = srhd_1d_max_wavespeeds n faces prim adot'
   \<and> length (srhd_1d_max_wavespeeds n faces prim adot) = n
   \<and> (\<forall>i<n. srhd_1d_max_wavespeeds n faces prim adot ! i =
         max \<bar>srhd_primitive_to_outer_wavespeeds (drop ((i + 2) * srhd_NCONS) prim) ! 0\<bar>
             \<bar>srhd_primitive_to_outer_wavespeeds (drop ((i + 2) * srhd_NCONS) prim) ! 1\<bar>)"
  by (simp add: srhd_1d_max_wavespeeds_def max_wavespeeds_zone_unboosted)

theorem srhd_1d_max_wavespeeds_unboosted_witness:
  "srhd_1d_max_wavespeeds 1 [0, 1] (replicate 8 0 @ [4, 0, 3, 0] @ replicate 8 0) 7 ! 0 = 1 / 2
   \<and> srhd_1d_max_wavespeeds 1 [0, 1] (replicate 8 0 @ [4, 0, 3, 0] @ replicate 8 0) 7
     = srhd_1d_max_wavespeeds 1 [0, 1] (replicate 8 0 @ [4, 0, 3, 0] @ replicate 8 0) 0"
proof -
  let ?P = "replicate 8 0 @ [4, 0, 3, 0] @ replicate 8 (0::real)"
  have s4: "sqrt (1 / 4) = 1 / 2"
    using real_sqrt_abs[of "1 / 2"] by (simp add: power2_eq_square)
  have d: "drop ((0 + 2) * srhd_NCONS) ?P = [4, 0, 3, 0] @ replicate 8 0"
    by (simp add: srhd_NCONS_def)
  have w: "srhd_primitive_to_outer_wavespeeds ([4, 0, 3, 0] @ replicate 8 0) = [- 1 / 2, 1 / 2]"
    by (simp add: srhd_primitive_to_outer_wavespeeds_def primitive_to_sound_speed_squared_def
        primitive_to_gamma_beta_squared_def primitive_to_beta_component_def
        primitive_to_lorentz_factor_def primitive_to_enthalpy_density_def
        ADIABATIC_GAMMA_def Let_def s4)
  note t = srhd_1d_max_wavespeeds_unboosted[of 1 "[0, 1]" ?P 7 0]
  from t have e: "srhd_1d_max_wavespeeds 1 [0, 1] ?P 7 = srhd_1d_max_wavespeeds 1 [0, 1] ?P 0"
    by (rule conjunct1)
  from t have "srhd_1d_max_wavespeeds 1 [0, 1] ?P 7 ! 0 =
      max \<bar>srhd_primitive_to_outer_wavespeeds (drop ((0 + 2) * srhd_NCONS) ?P) ! 0\<bar>
          \<bar>srhd_primitive_to_outer_wavespeeds (drop ((0 + 2) * srhd_NCONS) ?P) ! 1\<bar>"
    by blast
  also have "\<dots> = 1 / 2"
    unfolding d w by simp
  finally show ?thesis
    using e by blast
qed

subsection \<open>The Newton iteration of srhd_1d and its fatal reports\<close>















subsection \<open>The contact speed of the HLLC solver\<close>

lemma hllc_v_star_root:
  assumes "\<not> \<bar>a\<bar> < 1 / 10 ^ 10" "0 \<le> b * b - 4 * a * c"
  shows "a * (hllc_v_star a b c)\<^sup>2 + b * hllc_v_star a b c + c = 0"
proof -
  from assms(1) have a: "a \<noteq> 0" by auto
  define s where "s = sqrt (b * b - 4 * a * c)"
  have s2: "s * s = b * b - 4 * a * c" using assms(2) by (simp add: s_def)
  have v: "hllc_v_star a b c = (- b - s) / (2 * a)"
    using assms(1) by (simp add: hllc_v_star_def s_def)
  have "a * ((- b - s) / (2 * a))\<^sup>2 + b * ((- b - s) / (2 * a)) + c
      = ((b + s) * (b + s) - 2 * b * (b + s) + 4 * a * c) / (4 * a)"
    using a by (simp add: field_simps power2_eq_square)
  also have "(b + s) * (b + s) - 2 * b * (b + s) + 4 * a * c = s * s - b * b + 4 * a * c"
    by (simp add: algebra_simps)
  also have "\<dots> = 0" by (simp add: s2)
  finally show ?thesis by (simp add: v)
qed

lemma hllc_v_star_linear:
  assumes "\<bar>a\<bar> < 1 / 10 ^ 10" "b \<noteq> 0"
  shows "b * hllc_v_star a b c + c = 0"
  using assms by (simp add: hllc_v_star_def)

lemma riemann_hllc_inside:
  assumes "srhd_signal_speeds pl pr = (am, ap)" "am \<le> v_face" "v_face \<le> ap"
    and "ul = srhd_primitive_to_conserved pl 1" "ur = srhd_primitive_to_conserved pr 1"
    and "fl = srhd_primitive_to_flux pl ul" "fr = srhd_primitive_to_flux pr ur"
    and "uh = u_hll ul ur fl fr am ap" "fh = f_hll ul ur fl fr am ap"
    and "a = fh ! 2 + fh ! 0" "b = - (uh ! 2 + uh ! 0 + fh ! 1)" "c = uh ! 1"
    and "v_star = hllc_v_star a b c" "p_star = - a * v_star + fh ! 1"
  shows "riemann_hllc pl pr v_face =
     (if v_face < v_star
      then hllc_star_flux ul am (primitive_to_beta_component pl) v_star p_star v_face
      else hllc_star_flux ur ap (primitive_to_beta_component pr) v_star p_star v_face)"
  using assms(2,3)
  unfolding riemann_hllc_def Let_def assms(1) prod.case assms(4-14)
  by simp

lemma less_4_cases: "q < (4::nat) \<Longrightarrow> q = 0 \<or> q = 1 \<or> q = 2 \<or> q = 3" by arith

lemma u_hll_nth:
  assumes "q < 4"
  shows "u_hll ul ur fl fr am ap ! q = (ur ! q * ap - ul ! q * am + (fl ! q - fr ! q)) / (ap - am)"
  using less_4_cases[OF assms] by (auto simp: u_hll_def srhd_NCONS_def upt_4)

lemma f_hll_nth:
  assumes "q < 4"
  shows "f_hll ul ur fl fr am ap ! q =
           (fl ! q * ap - fr ! q * am - (ul ! q - ur ! q) * ap * am) / (ap - am)"
  using less_4_cases[OF assms] by (auto simp: f_hll_def srhd_NCONS_def upt_4)

lemma riemann_hllc_star:
  assumes "srhd_signal_speeds pl pr = (am, ap)" and "am \<le> v_face" and "v_face \<le> ap"
    and "ul = srhd_primitive_to_conserved pl 1" and "ur = srhd_primitive_to_conserved pr 1"
    and "fl = srhd_primitive_to_flux pl ul" and "fr = srhd_primitive_to_flux pr ur"
    and "uh = (\<lambda>q. (ur ! q * ap - ul ! q * am + (fl ! q - fr ! q)) / (ap - am))"
    and "fh = (\<lambda>q. (fl ! q * ap - fr ! q * am - (ul ! q - ur ! q) * ap * am) / (ap - am))"
    and "a = fh 2 + fh 0" and "b = - (uh 2 + uh 0 + fh 1)" and "c = uh 1"
    and "v_star = (if \<bar>a\<bar> < 1 / 10 ^ 10 then - c / b
                   else (- b - sqrt (b * b - 4 * a * c)) / (2 * a))"
    and "p_star = - a * v_star + fh 1"
    and "(u, lam, v) = (if v_face < v_star then (ul, am, primitive_to_beta_component pl)
                        else (ur, ap, primitive_to_beta_component pr))"
    and "D_star = u ! 0 * (lam - v) / (lam - v_star)"
    and "E_star = (lam * (u ! 2 + u ! 0) - u ! 1 + p_star * v_star) / (lam - v_star)"
    and "Sr_star = (E_star + p_star) * v_star"
    and "tau_star = E_star - D_star"
    and "s_star = u ! 3 * (lam - v) / (lam - v_star)"
  shows "riemann_hllc pl pr v_face =
           [D_star * v_star - v_face * D_star,
            Sr_star * v_star + p_star - v_face * Sr_star,
            Sr_star - D_star * v_star - v_face * tau_star,
            s_star * v_star - v_face * s_star]"
proof -
  let ?uh = "u_hll ul ur fl fr am ap" and ?fh = "f_hll ul ur fl fr am ap"
  have a: "a = ?fh ! 2 + ?fh ! 0" and b: "b = - (?uh ! 2 + ?uh ! 0 + ?fh ! 1)" and c: "c = ?uh ! 1"
    and p: "p_star = - a * v_star + ?fh ! 1"
    by (simp_all add: assms(8-12,14) u_hll_nth f_hll_nth)
  have v: "v_star = hllc_v_star a b c"
    by (simp add: assms(13) hllc_v_star_def)
  have "riemann_hllc pl pr v_face =
     (if v_face < v_star
      then hllc_star_flux ul am (primitive_to_beta_component pl) v_star p_star v_face
      else hllc_star_flux ur ap (primitive_to_beta_component pr) v_star p_star v_face)"
    by (rule riemann_hllc_inside[OF assms(1-7) refl refl a b c v p])
  also have "\<dots> = hllc_star_flux u lam v v_star p_star v_face"
    using assms(15) by (cases "v_face < v_star") simp_all
  also have "\<dots> = [D_star * v_star - v_face * D_star,
            Sr_star * v_star + p_star - v_face * Sr_star,
            Sr_star - D_star * v_star - v_face * tau_star,
            s_star * v_star - v_face * s_star]"
    unfolding hllc_star_flux_def Let_def assms(16-20) by (rule refl)
  finally show ?thesis .
qed

lemma srhd_flux_components:
  assumes "ul = srhd_primitive_to_conserved pl 1" "fl = srhd_primitive_to_flux pl ul"
  shows "fl ! 0 = primitive_to_beta_component pl * ul ! 0"
    and "fl ! 1 = primitive_to_beta_component pl * ul ! 1 + pl ! 2"
    and "fl ! 2 = primitive_to_beta_component pl * ul ! 2 + pl ! 2 * primitive_to_beta_component pl"
    and "fl ! 3 = primitive_to_beta_component pl * ul ! 3"
  by (simp_all add: assms srhd_primitive_to_flux_def srhd_primitive_to_conserved_def Let_def)

lemma srhd_momentum_is_energy_flux:
  assumes "ul = srhd_primitive_to_conserved pl 1" "fl = srhd_primitive_to_flux pl ul" "pl ! 0 \<noteq> 0"
  shows "fl ! 2 + fl ! 0 = ul ! 1"
proof -
  define w where "w = primitive_to_lorentz_factor pl"
  have w2: "w * w = 1 + pl ! 1 * pl ! 1"
    by (simp add: w_def primitive_to_lorentz_factor_def primitive_to_gamma_beta_squared_def
        Let_def add_nonneg_nonneg)
  have w0: "w \<noteq> 0"
  proof
    assume "w = 0"
    with w2 have "1 + pl ! 1 * pl ! 1 = 0" by simp
    moreover have "0 \<le> pl ! 1 * pl ! 1" by simp
    ultimately show False by linarith
  qed
  define H where "H = primitive_to_enthalpy_density pl"
  have u0: "ul ! 0 = pl ! 0 * w" and u1: "ul ! 1 = pl ! 0 * w * (H / pl ! 0) * pl ! 1"
    and u2: "ul ! 2 = pl ! 0 * w * (H / pl ! 0 * w - 1) - pl ! 2"
    by (simp_all add: assms(1) srhd_primitive_to_conserved_def Let_def w_def H_def)
  have v: "primitive_to_beta_component pl = pl ! 1 / w"
    by (simp add: primitive_to_beta_component_def w_def)
  have "fl ! 2 + fl ! 0 = (pl ! 1 / w) * (ul ! 2 + ul ! 0 + pl ! 2)"
    by (simp add: srhd_flux_components[OF assms(1,2)] v algebra_simps)
  also have "ul ! 2 + ul ! 0 + pl ! 2 = H * (w * w)"
    using assms(3) by (simp add: u0 u2 field_simps)
  also have "(pl ! 1 / w) * (H * (w * w)) = w * H * pl ! 1"
    using w0 by (simp add: field_simps)
  also have "\<dots> = ul ! 1"
    unfolding u1 using assms(3) by simp
  finally show ?thesis .
qed

lemma hll_consistency:
  fixes am ap :: real
  assumes "am \<noteq> ap"
    and "uh = (ur * ap - ul * am + (fl - fr)) / (ap - am)"
    and "fh = (fl * ap - fr * am - (ul - ur) * ap * am) / (ap - am)"
  shows "am * (uh - ul) = fh - fl" and "ap * (uh - ur) = fh - fr"
proof -
  from assms(1) have d: "ap - am \<noteq> 0" by simp
  have "(am * (uh - ul)) * (ap - am) = (fh - fl) * (ap - am)"
    using d by (simp add: assms(2,3) field_simps)
  with d show "am * (uh - ul) = fh - fl" by simp
  have "(ap * (uh - ur)) * (ap - am) = (fh - fr) * (ap - am)"
    using d by (simp add: assms(2,3) field_simps)
  with d show "ap * (uh - ur) = fh - fr" by simp
qed

text \<open>The star state and the jump conditions across the wave \<open>lam\<close> that bounds it:
  \<open>F* = F + lam (U* - U)\<close>, where the flux of the star state is
  \<open>F* = (D* v*, S* v* + p*, S* - D* v*, s* v*)\<close>.\<close>

lemma star_jump_mass:
  fixes lam :: real
  assumes "lam \<noteq> v_star" "D_star = u0 * (lam - v) / (lam - v_star)"
  shows "D_star * v_star = v * u0 + lam * (D_star - u0)"
proof -
  from assms have "D_star * (lam - v_star) = u0 * (lam - v)" by simp
  then show ?thesis by (simp add: algebra_simps)
qed

lemma star_jump_energy:
  fixes lam :: real
  assumes "lam \<noteq> v_star"
    and "E_star = (lam * E - S + p_star * v_star) / (lam - v_star)"
    and "Sr_star = (E_star + p_star) * v_star"
  shows "Sr_star = S + lam * (E_star - E)"
proof -
  from assms(1,2) have "E_star * (lam - v_star) = lam * E - S + p_star * v_star" by simp
  then show ?thesis by (simp add: assms(3) algebra_simps)
qed

lemma star_jump_momentum:
  fixes lam :: real
  assumes "lam \<noteq> v_star"
    and "E_star = (lam * E - S + p_star * v_star) / (lam - v_star)"
    and "Sr_star = (E_star + p_star) * v_star"
    and "p_star = - a * v_star + fh1"
    and "a * v_star\<^sup>2 + b * v_star + c = 0"
    and "b = - (Eh + fh1)"
    and "lam * S - f1 = lam * c - fh1"
    and "lam * E - S = lam * Eh - a"
  shows "Sr_star * v_star + p_star = f1 + lam * (Sr_star - S)"
proof -
  from assms(1,2) have e: "E_star * (lam - v_star) = lam * E - S + p_star * v_star" by simp
  have s: "E_star * (lam - v_star) + p_star * (lam - v_star) = lam * Eh - a + p_star * lam"
    using assms(8) by (simp only: e) (simp add: algebra_simps)
  have q: "a * (v_star * v_star) = - (b * v_star) - c"
    using assms(5) by (simp add: power2_eq_square)
  have "Sr_star * (lam - v_star) = v_star * (E_star * (lam - v_star) + p_star * (lam - v_star))"
    by (simp add: assms(3) algebra_simps)
  also have "\<dots> = v_star * (lam * Eh - a + p_star * lam)"
    by (simp only: s)
  also have "\<dots> = - lam * (a * (v_star * v_star) + b * v_star) - a * v_star"
    by (simp add: assms(4,6) algebra_simps)
  also have "\<dots> = lam * c - a * v_star"
    by (simp add: q algebra_simps)
  also have "\<dots> = lam * S - f1 + p_star"
    using assms(7) by (simp add: assms(4))
  finally show ?thesis by (simp add: algebra_simps)
qed


text \<open>
  Claim C6. When the face speed lies in \<open>[am, ap]\<close>, \<^verbatim>\<open>riemann_hllc\<close> forms the HLL averages
  \<open>U_hll = (ap U\<^sub>R - am U\<^sub>L + F\<^sub>L - F\<^sub>R)/(ap - am)\<close> and
  \<open>F_hll = (ap F\<^sub>L - am F\<^sub>R - ap am (U\<^sub>L - U\<^sub>R))/(ap - am)\<close> and takes the contact speed \<open>v*\<close> to be
  \<open>(-b - \<surd>(b\<^sup>2 - 4ac))/(2a)\<close>, the minus-root of \<open>a v\<^sup>2 + b v + c = 0\<close>, with
  \<open>a = F_hll[\<tau>] + F_hll[D]\<close>, \<open>b = -(U_hll[\<tau>] + U_hll[D] + F_hll[S])\<close>, \<open>c = U_hll[S]\<close>, and
  \<open>-c/b\<close> instead when \<open>|a| < 10\<^sup>-\<^sup>1\<^sup>0\<close>; the star pressure is \<open>p* = -a v* + F_hll[S]\<close>. The
  star state \<open>(D*, S*, \<tau>*, s*)\<close> is reconstructed from the left state and \<open>am\<close> when
  \<open>v_face < v*\<close>, and from the right state and \<open>ap\<close> otherwise, and the flux returned is
  \<open>F* - v_face U*\<close>. Where the discriminant is not negative, \<open>v*\<close> does solve the quadratic
  (and the substitute \<open>-c/b\<close> solves \<open>b v + c = 0\<close>); where the wave speed differs from
  \<open>v*\<close> the star state satisfies the jump conditions \<open>F* = F + lam (U* - U)\<close> of mass and
  scalar, of energy (for non-zero densities), and of momentum (when moreover \<open>am \<noteq> ap\<close>
  and \<open>v*\<close> is the root of the quadratic).
\<close>

theorem riemann_hllc_contact:
  assumes "srhd_signal_speeds pl pr = (am, ap)" and "am \<le> v_face" and "v_face \<le> ap"
    and "ul = srhd_primitive_to_conserved pl 1" and "ur = srhd_primitive_to_conserved pr 1"
    and "fl = srhd_primitive_to_flux pl ul" and "fr = srhd_primitive_to_flux pr ur"
    and "uh = (\<lambda>q. (ur ! q * ap - ul ! q * am + (fl ! q - fr ! q)) / (ap - am))"
    and "fh = (\<lambda>q. (fl ! q * ap - fr ! q * am - (ul ! q - ur ! q) * ap * am) / (ap - am))"
    and "a = fh 2 + fh 0" and "b = - (uh 2 + uh 0 + fh 1)" and "c = uh 1"
    and "v_star = (if \<bar>a\<bar> < 1 / 10 ^ 10 then - c / b
                   else (- b - sqrt (b * b - 4 * a * c)) / (2 * a))"
    and "p_star = - a * v_star + fh 1"
    and "(u, f, lam, v) = (if v_face < v_star then (ul, fl, am, primitive_to_beta_component pl)
                           else (ur, fr, ap, primitive_to_beta_component pr))"
    and "D_star = u ! 0 * (lam - v) / (lam - v_star)"
    and "E_star = (lam * (u ! 2 + u ! 0) - u ! 1 + p_star * v_star) / (lam - v_star)"
    and "Sr_star = (E_star + p_star) * v_star"
    and "tau_star = E_star - D_star"
    and "s_star = u ! 3 * (lam - v) / (lam - v_star)"
  shows "riemann_hllc pl pr v_face =
           [D_star * v_star - v_face * D_star,
            Sr_star * v_star + p_star - v_face * Sr_star,
            Sr_star - D_star * v_star - v_face * tau_star,
            s_star * v_star - v_face * s_star]
       \<and> (\<not> \<bar>a\<bar> < 1 / 10 ^ 10 \<and> 0 \<le> b * b - 4 * a * c \<longrightarrow>
            a * v_star\<^sup>2 + b * v_star + c = 0)
       \<and> (\<bar>a\<bar> < 1 / 10 ^ 10 \<and> b \<noteq> 0 \<longrightarrow> b * v_star + c = 0)
       \<and> (lam \<noteq> v_star \<longrightarrow>
            D_star * v_star = f ! 0 + lam * (D_star - u ! 0)
          \<and> s_star * v_star = f ! 3 + lam * (s_star - u ! 3))
       \<and> (lam \<noteq> v_star \<and> pl ! 0 \<noteq> 0 \<and> pr ! 0 \<noteq> 0 \<longrightarrow>
            Sr_star - D_star * v_star = f ! 2 + lam * (tau_star - u ! 2))
       \<and> (lam \<noteq> v_star \<and> pl ! 0 \<noteq> 0 \<and> pr ! 0 \<noteq> 0 \<and> am \<noteq> ap
            \<and> \<not> \<bar>a\<bar> < 1 / 10 ^ 10 \<and> 0 \<le> b * b - 4 * a * c \<longrightarrow>
            Sr_star * v_star + p_star = f ! 1 + lam * (Sr_star - u ! 1))"
proof -
  have v: "v_star = hllc_v_star a b c"
    by (simp add: assms(13) hllc_v_star_def)
  have flux: "riemann_hllc pl pr v_face =
           [D_star * v_star - v_face * D_star,
            Sr_star * v_star + p_star - v_face * Sr_star,
            Sr_star - D_star * v_star - v_face * tau_star,
            s_star * v_star - v_face * s_star]"
    using assms(15)
    by (intro riemann_hllc_star[OF assms(1-14) _ assms(16-20)])
       (simp split: if_splits)
  have root: "a * v_star\<^sup>2 + b * v_star + c = 0" if "\<not> \<bar>a\<bar> < 1 / 10 ^ 10" "0 \<le> b * b - 4 * a * c"
    using hllc_v_star_root[OF that] by (simp add: v)
  have lin: "b * v_star + c = 0" if "\<bar>a\<bar> < 1 / 10 ^ 10" "b \<noteq> 0"
    using hllc_v_star_linear[OF that] by (simp add: v)
  have side: "(u = ul \<and> f = fl \<and> lam = am \<and> v = primitive_to_beta_component pl)
            \<or> (u = ur \<and> f = fr \<and> lam = ap \<and> v = primitive_to_beta_component pr)"
    using assms(15) by (simp split: if_splits)
  have f0: "f ! 0 = v * u ! 0" and f3: "f ! 3 = v * u ! 3"
    using side srhd_flux_components(1,4)[OF assms(4,6)] srhd_flux_components(1,4)[OF assms(5,7)]
    by auto
  have fe: "f ! 2 + f ! 0 = u ! 1" if "pl ! 0 \<noteq> 0" "pr ! 0 \<noteq> 0"
    using side srhd_momentum_is_energy_flux[OF assms(4,6) that(1)]
      srhd_momentum_is_energy_flux[OF assms(5,7) that(2)]
    by auto
  have hll: "lam * (uh q - u ! q) = fh q - f ! q" if "am \<noteq> ap" for q
    using side hll_consistency[OF that, of "uh q" "ur ! q" "ul ! q" "fl ! q" "fr ! q" "fh q"]
    by (auto simp: assms(8,9))
  have mass: "D_star * v_star = f ! 0 + lam * (D_star - u ! 0)" if "lam \<noteq> v_star"
    using star_jump_mass[OF that assms(16)] by (simp add: f0)
  have scalar: "s_star * v_star = f ! 3 + lam * (s_star - u ! 3)" if "lam \<noteq> v_star"
    using star_jump_mass[OF that assms(20)] by (simp add: f3)
  have energy: "Sr_star - D_star * v_star = f ! 2 + lam * (tau_star - u ! 2)"
    if "lam \<noteq> v_star" "pl ! 0 \<noteq> 0" "pr ! 0 \<noteq> 0"
    using star_jump_energy[OF that(1) assms(17,18)] mass[OF that(1)] fe[OF that(2,3)]
    by (simp add: assms(19) algebra_simps)
  have momentum: "Sr_star * v_star + p_star = f ! 1 + lam * (Sr_star - u ! 1)"
    if "lam \<noteq> v_star" "pl ! 0 \<noteq> 0" "pr ! 0 \<noteq> 0" "am \<noteq> ap"
      "\<not> \<bar>a\<bar> < 1 / 10 ^ 10" "0 \<le> b * b - 4 * a * c"
  proof (rule star_jump_momentum[OF that(1) assms(17,18,14) root[OF that(5,6)], of "uh 2 + uh 0"])
    show "b = - (uh 2 + uh 0 + fh 1)" by (rule assms(11))
    show "lam * u ! 1 - f ! 1 = lam * c - fh 1"
      using hll[OF that(4), of 1] by (simp add: assms(12) algebra_simps)
    show "lam * (u ! 2 + u ! 0) - u ! 1 = lam * (uh 2 + uh 0) - a"
      using hll[OF that(4), of 2] hll[OF that(4), of 0] fe[OF that(2,3)]
      by (simp add: assms(10) algebra_simps)
  qed
  from flux root lin mass scalar energy momentum show ?thesis
    by blast
qed


lemma s14: "sqrt (1 / 4) = 1 / 2"
  using real_sqrt_abs[of "1 / 2"] by (simp add: power2_eq_square)

lemma s19: "sqrt (1 / 9) = 1 / 3"
  using real_sqrt_abs[of "1 / 3"] by (simp add: power2_eq_square)

lemma s1699: "sqrt (169 / 9) = 13 / 3"
  using real_sqrt_abs[of "13 / 3"] by (simp add: power2_eq_square)

lemma beta_l: "primitive_to_beta_component [2, 0, 3 / 2, 1] = 0"
  by (simp add: primitive_to_beta_component_def)

lemma beta_r: "primitive_to_beta_component [4 / 3, 0, 1 / 6, 2] = 0"
  by (simp add: primitive_to_beta_component_def)

lemma ws_l: "srhd_primitive_to_outer_wavespeeds [2, 0, 3 / 2, 1] = [- 1 / 2, 1 / 2]"
  by (simp add: srhd_primitive_to_outer_wavespeeds_def primitive_to_sound_speed_squared_def
      primitive_to_gamma_beta_squared_def beta_l primitive_to_enthalpy_density_def
      ADIABATIC_GAMMA_def Let_def s14)

lemma ws_r: "srhd_primitive_to_outer_wavespeeds [4 / 3, 0, 1 / 6, 2] = [- 1 / 3, 1 / 3]"
  by (simp add: srhd_primitive_to_outer_wavespeeds_def primitive_to_sound_speed_squared_def
      primitive_to_gamma_beta_squared_def beta_r primitive_to_enthalpy_density_def
      ADIABATIC_GAMMA_def Let_def s19)

lemma speeds_ex: "srhd_signal_speeds [2, 0, 3 / 2, 1] [4 / 3, 0, 1 / 6, 2] = (- 1 / 2, 1 / 2)"
  by (simp add: srhd_signal_speeds_def ws_l ws_r Let_def min2_def max2_def)

lemma p2c_l: "srhd_primitive_to_conserved [2, 0, 3 / 2, 1] 1 = [2, 0, 9 / 2, 2]"
  by (simp add: srhd_primitive_to_conserved_def primitive_to_lorentz_factor_def
      primitive_to_gamma_beta_squared_def primitive_to_enthalpy_density_def
      ADIABATIC_GAMMA_def Let_def)

lemma p2c_r: "srhd_primitive_to_conserved [4 / 3, 0, 1 / 6, 2] 1 = [4 / 3, 0, 1 / 2, 8 / 3]"
  by (simp add: srhd_primitive_to_conserved_def primitive_to_lorentz_factor_def
      primitive_to_gamma_beta_squared_def primitive_to_enthalpy_density_def
      ADIABATIC_GAMMA_def Let_def)

lemma flux_l: "srhd_primitive_to_flux [2, 0, 3 / 2, 1] [2, 0, 9 / 2, 2] = [0, 3 / 2, 0, 0]"
  by (simp add: srhd_primitive_to_flux_def beta_l Let_def)

lemma flux_r: "srhd_primitive_to_flux [4 / 3, 0, 1 / 6, 2] [4 / 3, 0, 1 / 2, 8 / 3] = [0, 1 / 6, 0, 0]"
  by (simp add: srhd_primitive_to_flux_def beta_r Let_def)

theorem riemann_hllc_contact_witness:
  "srhd_signal_speeds [2, 0, 3 / 2, 1] [4 / 3, 0, 1 / 6, 2] = (- 1 / 2, 1 / 2)
   \<and> - 1 / 2 \<le> (0::real) \<and> (0::real) \<le> 1 / 2
   \<and> \<not> \<bar>7 / 6 :: real\<bar> < 1 / 10 ^ 10 \<and> (0::real) \<le> (- 5) * (- 5) - 4 * (7 / 6) * (4 / 3)
   \<and> riemann_hllc [2, 0, 3 / 2, 1] [4 / 3, 0, 1 / 6, 2] 0 = [4 / 11, 19 / 22, 10 / 11, 4 / 11]
   \<and> (7 / 6 :: real) * (2 / 7)\<^sup>2 + (- 5) * (2 / 7) + 4 / 3 = 0
   \<and> riemann_hllc [2, 0, 3 / 2, 1] [4 / 3, 0, 1 / 6, 2] (2 / 5) = [- 16 / 45, 29 / 90, - 1 / 15, - 32 / 45]"
proof -
  let ?pl = "[2, 0, 3 / 2, 1] :: real list" and ?pr = "[4 / 3, 0, 1 / 6, 2] :: real list"
  let ?ul = "[2, 0, 9 / 2, 2] :: real list" and ?ur = "[4 / 3, 0, 1 / 2, 8 / 3] :: real list"
  let ?fl = "[0, 3 / 2, 0, 0] :: real list" and ?fr = "[0, 1 / 6, 0, 0] :: real list"
  let ?uh = "\<lambda>q. (?ur ! q * (1 / 2) - ?ul ! q * (- 1 / 2) + (?fl ! q - ?fr ! q)) / (1 / 2 - (- 1 / 2)) :: real"
  let ?fh = "\<lambda>q. (?fl ! q * (1 / 2) - ?fr ! q * (- 1 / 2) - (?ul ! q - ?ur ! q) * (1 / 2) * (- 1 / 2)) / (1 / 2 - (- 1 / 2)) :: real"
  have l: "riemann_hllc ?pl ?pr 0 =
           [14 / 11 * (2 / 7) - 0 * (14 / 11),
            14 / 11 * (2 / 7) + 1 / 2 - 0 * (14 / 11),
            14 / 11 - 14 / 11 * (2 / 7) - 0 * (59 / 22),
            14 / 11 * (2 / 7) - 0 * (14 / 11)]
       \<and> (\<not> \<bar>7 / 6 :: real\<bar> < 1 / 10 ^ 10 \<and> (0::real) \<le> (- 5) * (- 5) - 4 * (7 / 6) * (4 / 3) \<longrightarrow>
            (7 / 6 :: real) * (2 / 7)\<^sup>2 + (- 5) * (2 / 7) + 4 / 3 = 0)
       \<and> (\<bar>7 / 6 :: real\<bar> < 1 / 10 ^ 10 \<and> (- 5 :: real) \<noteq> 0 \<longrightarrow> (- 5 :: real) * (2 / 7) + 4 / 3 = 0)
       \<and> (- 1 / 2 \<noteq> (2 / 7 :: real) \<longrightarrow>
            (14 / 11 :: real) * (2 / 7) = ?fl ! 0 + (- 1 / 2) * (14 / 11 - ?ul ! 0)
          \<and> (14 / 11 :: real) * (2 / 7) = ?fl ! 3 + (- 1 / 2) * (14 / 11 - ?ul ! 3))
       \<and> (- 1 / 2 \<noteq> (2 / 7 :: real) \<and> ?pl ! 0 \<noteq> 0 \<and> ?pr ! 0 \<noteq> 0 \<longrightarrow>
            (14 / 11 :: real) - 14 / 11 * (2 / 7) = ?fl ! 2 + (- 1 / 2) * (59 / 22 - ?ul ! 2))
       \<and> (- 1 / 2 \<noteq> (2 / 7 :: real) \<and> ?pl ! 0 \<noteq> 0 \<and> ?pr ! 0 \<noteq> 0 \<and> - 1 / 2 \<noteq> (1 / 2 :: real)
            \<and> \<not> \<bar>7 / 6 :: real\<bar> < 1 / 10 ^ 10 \<and> (0::real) \<le> (- 5) * (- 5) - 4 * (7 / 6) * (4 / 3) \<longrightarrow>
            (14 / 11 :: real) * (2 / 7) + 1 / 2 = ?fl ! 1 + (- 1 / 2) * (14 / 11 - ?ul ! 1))"
    by (rule riemann_hllc_contact[where ul = ?ul and ur = ?ur and fl = ?fl and fr = ?fr
          and uh = ?uh and fh = ?fh and u = ?ul and E_star = "87 / 22"
          and v = "primitive_to_beta_component ?pl", OF speeds_ex])
      (simp_all add: p2c_l p2c_r flux_l flux_r s1699 beta_l)
  have r: "riemann_hllc ?pl ?pr (2 / 5) =
           [28 / 9 * (2 / 7) - 2 / 5 * (28 / 9),
            14 / 9 * (2 / 7) + 1 / 2 - 2 / 5 * (14 / 9),
            14 / 9 - 28 / 9 * (2 / 7) - 2 / 5 * (11 / 6),
            56 / 9 * (2 / 7) - 2 / 5 * (56 / 9)]"
    by (rule riemann_hllc_contact[where ul = ?ul and ur = ?ur and fl = ?fl and fr = ?fr
          and uh = ?uh and fh = ?fh and u = ?ur and f = ?fr and lam = "1 / 2" and E_star = "89 / 18"
          and a = "7 / 6" and b = "- 5" and c = "4 / 3" and v_star = "2 / 7" and p_star = "1 / 2"
          and v = "primitive_to_beta_component ?pr", OF speeds_ex, THEN conjunct1])
      (simp_all add: p2c_l p2c_r flux_l flux_r s1699 beta_r)
  from l r show ?thesis
    by (simp add: speeds_ex)
qed


subsection \<open>The force of a point mass\<close>




















subsection \<open>The Keplerian buffer\<close>

lemma iso2d_buffer_outside:
  "iso2d_buffer_source_term NoBuffer xc yc dt cons = cons"
  "sqrt (xc * xc + yc * yc) \<le> kb_outer_radius k - kb_onset_width k \<Longrightarrow>
     iso2d_buffer_source_term (KeplerianBuffer k) xc yc dt cons = cons"
  by (simp_all add: iso2d_buffer_source_term_def Let_def)

lemma iso2d_buffer_inside:
  assumes "kb_outer_radius k - kb_onset_width k < sqrt (xc * xc + yc * yc)"
  shows "iso2d_buffer_source_term (KeplerianBuffer k) xc yc dt cons =
     relax cons
       [kb_surface_density k,
        fst (keplerian_momentum (kb_surface_density k) (kb_central_mass k) xc yc),
        snd (keplerian_momentum (kb_surface_density k) (kb_central_mass k) xc yc)]
       (legacy_buffer_rate (kb_driving_rate k) (kb_central_mass k) (kb_outer_radius k)
          (kb_onset_width k) (sqrt (xc * xc + yc * yc)) * dt)"
  using assms
  by (simp add: iso2d_buffer_source_term_def Let_def relax_def keplerian_momentum_def
      iso2d_NCONS_def upt_3 max2_eq_max mult.assoc numeral_2_eq_2 legacy_buffer_rate_def)

lemma euler2d_buffer_outside:
  "euler2d_buffer_source_term NoBuffer xc yc dt cons = cons"
  "sqrt (xc * xc + yc * yc) \<le> kb_outer_radius k - kb_onset_width k \<Longrightarrow>
     euler2d_buffer_source_term (KeplerianBuffer k) xc yc dt cons = cons"
  by (simp_all add: euler2d_buffer_source_term_def Let_def)

lemma euler2d_buffer_inside:
  assumes "kb_outer_radius k - kb_onset_width k < sqrt (xc * xc + yc * yc)"
  shows "euler2d_buffer_source_term (KeplerianBuffer k) xc yc dt cons =
     relax cons
       [kb_surface_density k,
        fst (keplerian_momentum (kb_surface_density k) (kb_central_mass k) xc yc),
        snd (keplerian_momentum (kb_surface_density k) (kb_central_mass k) xc yc),
        kb_surface_pressure k / (GAMMA_LAW_INDEX - 1)
          + 0.5 * ((fst (keplerian_momentum (kb_surface_density k) (kb_central_mass k) xc yc))\<^sup>2
                 + (snd (keplerian_momentum (kb_surface_density k) (kb_central_mass k) xc yc))\<^sup>2)
              / kb_surface_density k]
       (legacy_buffer_rate (kb_driving_rate k) (kb_central_mass k) (kb_outer_radius k)
          (kb_onset_width k) (sqrt (xc * xc + yc * yc)) * dt)"
  using assms
  by (simp add: euler2d_buffer_source_term_def Let_def relax_def keplerian_momentum_def
      euler2d_NCONS_def upt_4 max2_eq_max mult.assoc power2_eq_square numeral_2_eq_2 numeral_3_eq_3
      legacy_buffer_rate_def)

lemma cbdisodg_buffer_outside:
  "dg_is_enabled b = 0 \<or> sqrt (xc * xc + yc * yc) \<le> dg_outer_radius b - dg_onset_width b \<Longrightarrow>
     cbdisodg_buffer_source_term b xc yc cons cons_dot = cons_dot"
  by (auto simp: cbdisodg_buffer_source_term_def Let_def)

lemma cbdisodg_buffer_inside:
  assumes "dg_is_enabled b \<noteq> 0" "dg_outer_radius b - dg_onset_width b < sqrt (xc * xc + yc * yc)"
  shows "cbdisodg_buffer_source_term b xc yc cons cons_dot =
     map (\<lambda>q. cons_dot ! q -
            (cons ! q -
              [dg_surface_density b,
               fst (keplerian_momentum (dg_surface_density b) (dg_central_mass b) xc yc),
               snd (keplerian_momentum (dg_surface_density b) (dg_central_mass b) xc yc)] ! q)
            * spec_buffer_rate (dg_driving_rate b) (dg_central_mass b) (dg_outer_radius b)
                (dg_onset_width b) (sqrt (xc * xc + yc * yc)))
       [0..<cbdisodg_NCONS]"
  using assms
  by (simp add: cbdisodg_buffer_source_term_def Let_def keplerian_momentum_def
      cbdisodg_NCONS_def upt_3 spec_buffer_rate_def numeral_2_eq_2)

lemma s25: "sqrt 25 = 5"
  using real_sqrt_abs[of 5] by simp

lemma iso2d_buffer_ex:
  "iso2d_buffer_source_term
     (KeplerianBuffer \<lparr>kb_surface_density = 2, kb_surface_pressure = 0, kb_central_mass = 64,
        kb_driving_rate = 1, kb_outer_radius = 6, kb_onset_width = 2\<rparr>) 3 4 (1 / 10) [1, 0, 0] ! 0
     = 3 / 2"
  by (simp add: iso2d_buffer_source_term_def Let_def iso2d_NCONS_def upt_3 s25 max2_def)

lemma spec_rate_ex: "spec_buffer_rate 1 64 6 2 5 = 1 / 2"
  by (simp add: spec_buffer_rate_def Let_def)

text \<open>
  Claim C5, as amended. In iso2d and euler2d the buffer changes the conserved state of a
  zone only when the zone radius satisfies \<open>r > r\<^sub>o\<^sub>u\<^sub>t\<^sub>e\<^sub>r - onset_width\<close>, and there it applies
  \<open>U \<leftarrow> U - (U - U\<^sub>0) rate dt\<close> toward the circular-Keplerian reference \<open>U\<^sub>0\<close>, with
  \<open>rate = driving_rate \<cdot> \<omega>\<^sub>o\<^sub>u\<^sub>t\<^sub>e\<^sub>r \<cdot> max(r, 1)\<close> and \<open>\<omega>\<^sub>o\<^sub>u\<^sub>t\<^sub>e\<^sub>r = \<surd>(M\<^sub>c / r\<^sub>o\<^sub>n\<^sub>s\<^sub>e\<^sub>t\<^sup>3)\<close>. In cbdisodg_2d
  \<^verbatim>\<open>buffer_source_term\<close>, when enabled and \<open>r > r\<^sub>o\<^sub>n\<^sub>s\<^sub>e\<^sub>t\<close>, subtracts \<open>(U - U\<^sub>0) rate\<close> from the
  rate of change \<^verbatim>\<open>cons_dot\<close> it is given, with the linear ramp:
  \<open>rate = driving_rate \<cdot> \<omega>\<^sub>o\<^sub>u\<^sub>t\<^sub>e\<^sub>r \<cdot> (r - r\<^sub>o\<^sub>n\<^sub>s\<^sub>e\<^sub>t)/(r\<^sub>o\<^sub>u\<^sub>t\<^sub>e\<^sub>r - r\<^sub>o\<^sub>n\<^sub>s\<^sub>e\<^sub>t)\<close>. In all three, zones at or inside
  the onset radius (and every zone when there is no buffer) are left unchanged.
\<close>

theorem keplerian_buffer_source_term:
  "iso2d_buffer_source_term NoBuffer xc yc dt u = u
   \<and> euler2d_buffer_source_term NoBuffer xc yc dt u = u
   \<and> (sqrt (xc * xc + yc * yc) \<le> kb_outer_radius k - kb_onset_width k \<longrightarrow>
        iso2d_buffer_source_term (KeplerianBuffer k) xc yc dt u = u
      \<and> euler2d_buffer_source_term (KeplerianBuffer k) xc yc dt u = u)
   \<and> (kb_outer_radius k - kb_onset_width k < sqrt (xc * xc + yc * yc) \<longrightarrow>
        iso2d_buffer_source_term (KeplerianBuffer k) xc yc dt u =
          relax u
            [kb_surface_density k,
             fst (keplerian_momentum (kb_surface_density k) (kb_central_mass k) xc yc),
             snd (keplerian_momentum (kb_surface_density k) (kb_central_mass k) xc yc)]
            (legacy_buffer_rate (kb_driving_rate k) (kb_central_mass k) (kb_outer_radius k)
               (kb_onset_width k) (sqrt (xc * xc + yc * yc)) * dt)
      \<and> euler2d_buffer_source_term (KeplerianBuffer k) xc yc dt u =
          relax u
            [kb_surface_density k,
             fst (keplerian_momentum (kb_surface_density k) (kb_central_mass k) xc yc),
             snd (keplerian_momentum (kb_surface_density k) (kb_central_mass k) xc yc),
             kb_surface_pressure k / (GAMMA_LAW_INDEX - 1)
               + 0.5 * ((fst (keplerian_momentum (kb_surface_density k) (kb_central_mass k) xc yc))\<^sup>2
                      + (snd (keplerian_momentum (kb_surface_density k) (kb_central_mass k) xc yc))\<^sup>2)
                   / kb_surface_density k]
            (legacy_buffer_rate (kb_driving_rate k) (kb_central_mass k) (kb_outer_radius k)
               (kb_onset_width k) (sqrt (xc * xc + yc * yc)) * dt))
   \<and> (dg_is_enabled b = 0 \<or> sqrt (xc * xc + yc * yc) \<le> dg_outer_radius b - dg_onset_width b \<longrightarrow>
        cbdisodg_buffer_source_term b xc yc u u_dot = u_dot)
   \<and> (dg_is_enabled b \<noteq> 0 \<and> dg_outer_radius b - dg_onset_width b < sqrt (xc * xc + yc * yc) \<longrightarrow>
        cbdisodg_buffer_source_term b xc yc u u_dot =
          map (\<lambda>q. u_dot ! q -
                 (u ! q -
                   [dg_surface_density b,
                    fst (keplerian_momentum (dg_surface_density b) (dg_central_mass b) xc yc),
                    snd (keplerian_momentum (dg_surface_density b) (dg_central_mass b) xc yc)] ! q)
                 * spec_buffer_rate (dg_driving_rate b) (dg_central_mass b) (dg_outer_radius b)
                     (dg_onset_width b) (sqrt (xc * xc + yc * yc)))
            [0..<cbdisodg_NCONS])"
  using cbdisodg_buffer_outside[of b xc yc u u_dot] cbdisodg_buffer_inside[of b xc yc u u_dot]
  by (simp add: iso2d_buffer_outside euler2d_buffer_outside iso2d_buffer_inside
      euler2d_buffer_inside)

theorem keplerian_buffer_source_term_witness:
  "iso2d_buffer_source_term
     (KeplerianBuffer \<lparr>kb_surface_density = 2, kb_surface_pressure = 0, kb_central_mass = 64,
        kb_driving_rate = 1, kb_outer_radius = 6, kb_onset_width = 2\<rparr>) 3 4 (1 / 10) [1, 0, 0] ! 0
     = 3 / 2
   \<and> iso2d_buffer_source_term
     (KeplerianBuffer \<lparr>kb_surface_density = 2, kb_surface_pressure = 0, kb_central_mass = 64,
        kb_driving_rate = 1, kb_outer_radius = 6, kb_onset_width = 1\<rparr>) 3 4 (1 / 10) [1, 0, 0]
     = [1, 0, 0]
   \<and> cbdisodg_buffer_source_term
     \<lparr>dg_surface_density = 2, dg_surface_pressure = 0, dg_central_mass = 64,
        dg_driving_rate = 1, dg_outer_radius = 6, dg_onset_width = 2, dg_is_enabled = 1\<rparr>
       3 4 [1, 0, 0] [0, 0, 0] ! 0 = 1 / 2"
proof -
  let ?k = "\<lparr>kb_surface_density = 2, kb_surface_pressure = 0, kb_central_mass = 64,
        kb_driving_rate = 1, kb_outer_radius = 6, kb_onset_width = 2\<rparr>"
  let ?k' = "\<lparr>kb_surface_density = 2, kb_surface_pressure = 0, kb_central_mass = 64,
        kb_driving_rate = 1, kb_outer_radius = 6, kb_onset_width = 1\<rparr>"
  let ?b = "\<lparr>dg_surface_density = 2, dg_surface_pressure = 0, dg_central_mass = 64,
        dg_driving_rate = 1, dg_outer_radius = 6, dg_onset_width = 2, dg_is_enabled = 1\<rparr>"
  have r: "sqrt (3 * 3 + 4 * 4) = 5"
    by (simp add: s25)
  from keplerian_buffer_source_term[of 3 4 "1 / 10" "[1, 0, 0]" ?k ?b "[0, 0, 0]"]
  have a: "iso2d_buffer_source_term (KeplerianBuffer ?k) 3 4 (1 / 10) [1, 0, 0] ! 0 = 3 / 2"
    and c: "cbdisodg_buffer_source_term ?b 3 4 [1, 0, 0] [0, 0, 0] ! 0 = 1 / 2"
    by (simp_all add: r relax_def legacy_buffer_rate_def spec_buffer_rate_def
        cbdisodg_NCONS_def upt_3)
  from keplerian_buffer_source_term[of 3 4 "1 / 10" "[1, 0, 0]" ?k' ?b "[0, 0, 0]"]
  have b: "iso2d_buffer_source_term (KeplerianBuffer ?k') 3 4 (1 / 10) [1, 0, 0] = [1, 0, 0]"
    by (simp add: r)
  from a b c show ?thesis
    by blast
qed

text \<open>The claim as stated gives iso2d the linear ramp. At \<open>(3, 4)\<close>, with outer radius 6 and
  onset width 2, reference density 2, central mass 64, driving rate 1 and \<open>dt = 1/10\<close>, the
  code moves the density 1 to \<open>3/2\<close> (its rate is \<open>max(5, 1) = 5\<close>); the linear ramp gives
  the rate \<open>1/2\<close> and the density \<open>21/20\<close>.\<close>

theorem keplerian_buffer_ramp_counterexample:
  "iso2d_buffer_source_term
     (KeplerianBuffer \<lparr>kb_surface_density = 2, kb_surface_pressure = 0, kb_central_mass = 64,
        kb_driving_rate = 1, kb_outer_radius = 6, kb_onset_width = 2\<rparr>) 3 4 (1 / 10) [1, 0, 0] ! 0
     = 3 / 2
   \<and> spec_buffer_rate 1 64 6 2 5 = 1 / 2
   \<and> relax [1, 0, 0] [2, 0, 0] (spec_buffer_rate 1 64 6 2 5 * (1 / 10)) ! 0 = 21 / 20"
  by (simp add: iso2d_buffer_ex spec_rate_ex relax_def upt_3)

subsection \<open>The update of the modal weights\<close>









end
